theory Spec2Isabelle
  imports Complex_Main "HOL-Library.Multiset"
begin

section \<open>JavaScript numbers and strings\<close>

text \<open>
  The evaluators compute with JavaScript numbers. A number is modelled as an exact
  rational or \<open>NaN\<close>; the rounding error of binary64 arithmetic is not modelled.
  \<open>NaN\<close> is what \<open>0 / 0\<close> gives; it is absorbing for the arithmetic operations, and
  every comparison with it is false. Infinities are not represented: they would arise
  only from a non-zero dividend over zero, and the program divides a count by a count
  where the divisor is either known to be positive (tested before, or a maximum with
  1) or is the number of paths under a dividend that counts some of these paths
  (lemma \<open>wellNamedPaths_le\<close> below), so that a zero divisor comes with a zero dividend.

  Strings are lists of characters; the program's strings in the examples are ASCII,
  where the length of the list is JavaScript's \<open>length\<close>.
\<close>

datatype jsnum = Fin rat | NaN

fun js_add :: "jsnum \<Rightarrow> jsnum \<Rightarrow> jsnum" where
  "js_add (Fin a) (Fin b) = Fin (a + b)"
| "js_add _ _ = NaN"

fun js_sub :: "jsnum \<Rightarrow> jsnum \<Rightarrow> jsnum" where
  "js_sub (Fin a) (Fin b) = Fin (a - b)"
| "js_sub _ _ = NaN"

fun js_mul :: "jsnum \<Rightarrow> jsnum \<Rightarrow> jsnum" where
  "js_mul (Fin a) (Fin b) = Fin (a * b)"
| "js_mul _ _ = NaN"

text \<open>Division; the divisor 0 is met with the dividend 0 only, which gives \<open>NaN\<close>.\<close>

fun js_div :: "jsnum \<Rightarrow> jsnum \<Rightarrow> jsnum" where
  "js_div (Fin a) (Fin b) = (if b = 0 then NaN else Fin (a / b))"
| "js_div _ _ = NaN"

text \<open>\<open>Math.min\<close> of two numbers.\<close>

fun js_min :: "jsnum \<Rightarrow> jsnum \<Rightarrow> jsnum" where
  "js_min (Fin a) (Fin b) = Fin (min a b)"
| "js_min _ _ = NaN"

fun js_lt :: "jsnum \<Rightarrow> jsnum \<Rightarrow> bool" where
  "js_lt (Fin a) (Fin b) = (a < b)"
| "js_lt _ _ = False"

fun js_ge :: "jsnum \<Rightarrow> jsnum \<Rightarrow> bool" where
  "js_ge (Fin a) (Fin b) = (a \<ge> b)"
| "js_ge _ _ = False"

text \<open>Strict equality \<open>===\<close> of two numbers: \<open>NaN\<close> equals nothing.\<close>

fun js_eq :: "jsnum \<Rightarrow> jsnum \<Rightarrow> bool" where
  "js_eq (Fin a) (Fin b) = (a = b)"
| "js_eq _ _ = False"

text \<open>\<open>Math.round\<close>: the nearest integer, a tie going up; \<open>NaN\<close> stays \<open>NaN\<close>.\<close>

fun js_round :: "jsnum \<Rightarrow> jsnum" where
  "js_round (Fin a) = Fin (of_int \<lfloor>a + 1 / 2\<rfloor>)"
| "js_round NaN = NaN"

text \<open>A count (a length, a counter incremented in a loop) as a number.\<close>

definition js_num :: "nat \<Rightarrow> jsnum" where
  "js_num n = Fin (of_nat n)"

fun string_of_nat :: "nat \<Rightarrow> string" where
  "string_of_nat n =
     (if n < 10 then [char_of (48 + n)]
      else string_of_nat (n div 10) @ [char_of (48 + n mod 10)])"

declare string_of_nat.simps [simp del]

text \<open>
  The text a template literal gives for a number. It is applied to results of
  \<open>Math.round\<close> only, which are integers or \<open>NaN\<close>.
\<close>

definition js_toString :: "jsnum \<Rightarrow> string" where
  "js_toString x =
     (case x of
        NaN \<Rightarrow> ''NaN''
      | Fin r \<Rightarrow> (if r < 0 then ''-'' @ string_of_nat (nat (- \<lfloor>r\<rfloor>))
                  else string_of_nat (nat \<lfloor>r\<rfloor>)))"

text \<open>\<open>xs.join(sep)\<close>.\<close>

fun join :: "string \<Rightarrow> string list \<Rightarrow> string" where
  "join sep [] = []"
| "join sep [x] = x"
| "join sep (x # y # ys) = x @ sep @ join sep (y # ys)"

text \<open>\<open>s.split(c)\<close> for a one-character separator.\<close>

fun split :: "char \<Rightarrow> string \<Rightarrow> string list" where
  "split c [] = [[]]"
| "split c (x # xs) =
     (if x = c then [] # split c xs
      else (case split c xs of
              [] \<Rightarrow> [[x]]
            | s # ss \<Rightarrow> (x # s) # ss))"

text \<open>\<open>s.startsWith(c)\<close> for a one-character prefix.\<close>

fun startsWith :: "string \<Rightarrow> char \<Rightarrow> bool" where
  "startsWith [] c = False"
| "startsWith (x # xs) c = (x = c)"

text \<open>
  A JavaScript \<open>Set\<close> of strings, as the list of its members without repetition;
  \<open>set_add\<close> is \<open>add\<close>, \<open>set_has\<close> is \<open>has\<close>, the length is \<open>size\<close>.
\<close>

definition set_add :: "string \<Rightarrow> string list \<Rightarrow> string list" where
  "set_add x s = (if x \<in> set s then s else s @ [x])"

definition set_has :: "string list \<Rightarrow> string \<Rightarrow> bool" where
  "set_has s x = (x \<in> set s)"

section \<open>The document\<close>

text \<open>
  The parsed OpenAPI document (\<open>OpenAPIV3.Document\<close>), with the fields the evaluators
  read. An optional field is an \<open>option\<close>, and a field that is there holds a value of
  its declared type; an object used as a mapping is the list of its entries in key
  order (the keys of an object are distinct); a mapping of which only the keys are
  read is the list of its keys. A schema, parameter, response or request body may be
  a reference object, which has the key \<open>$ref\<close> and none of the keys the evaluators
  test.
\<close>

datatype jsvalue = JNull | JBool bool | JNumber jsnum | JString string | JArray | JObject

text \<open>Truthiness of a value, as \<open>||\<close> and \<open>if\<close> test it.\<close>

fun truthy :: "jsvalue \<Rightarrow> bool" where
  "truthy JNull = False"
| "truthy (JBool b) = b"
| "truthy (JNumber (Fin r)) = (r \<noteq> 0)"
| "truthy (JNumber NaN) = False"
| "truthy (JString s) = (s \<noteq> [])"
| "truthy JArray = True"
| "truthy JObject = True"

text \<open>An optional string is truthy when it is present and not empty.\<close>

fun truthy_string :: "string option \<Rightarrow> bool" where
  "truthy_string None = False"
| "truthy_string (Some s) = (s \<noteq> [])"

datatype additional = AdditionalFlag bool | AdditionalSchema

fun truthy_additional :: "additional option \<Rightarrow> bool" where
  "truthy_additional None = False"
| "truthy_additional (Some (AdditionalFlag b)) = b"
| "truthy_additional (Some AdditionalSchema) = True"

record SchemaObject =
  schema_type :: "string option"
  schema_properties :: "string list option"
  schema_additionalProperties :: "additional option"

datatype SchemaOrRef = SchemaRef string | Schema SchemaObject

record MediaType =
  mt_schema :: "SchemaOrRef option"
  mt_example :: "jsvalue option"
  mt_examples :: "string list option"

datatype Parameter = ParameterRef string | ParameterObject "string option"

datatype Response = ResponseRef string
  | ResponseObject "string option" "(string \<times> MediaType) list option"

datatype RequestBody = RequestBodyRef string
  | RequestBodyObject "(string \<times> MediaType) list"

type_synonym SecurityRequirement = "(string \<times> string list) list"

record Operation =
  op_description :: "string option"
  op_tags :: "string list option"
  op_parameters :: "Parameter list option"
  op_requestBody :: "RequestBody option"
  op_responses :: "(string \<times> Response) list"
  op_security :: "SecurityRequirement list option"

record PathItem =
  pi_description :: "string option"
  pi_get :: "Operation option"
  pi_post :: "Operation option"
  pi_put :: "Operation option"
  pi_patch :: "Operation option"
  pi_delete :: "Operation option"
  pi_options :: "Operation option"
  pi_head :: "Operation option"
  pi_trace :: "Operation option"

record Info =
  info_title :: string
  info_version :: "string option"
  info_description :: "string option"

record Components =
  comp_schemas :: "(string \<times> SchemaOrRef) list option"
  comp_securitySchemes :: "string list option"
  comp_responses :: "string list option"
  comp_parameters :: "string list option"
  comp_examples :: "string list option"
  comp_requestBodies :: "string list option"
  comp_headers :: "string list option"

record Document =
  doc_info :: Info
  doc_servers :: "string list option"
  doc_security :: "SecurityRequirement list option"
  doc_paths :: "(string \<times> PathItem option) list option"
  doc_components :: "Components option"
  doc_externalDocs :: "string option"

record CriteriaScore =
  name :: string
  score :: jsnum
  maxScore :: jsnum
  percentage :: jsnum
  feedback :: "string list"
  suggestions :: "string list"

section \<open>Walking the document\<close>

text \<open>
  Every evaluator walks \<open>Object.values(document.paths)\<close>, skips a path item that is
  not there, and for each method of a fixed list takes the operation if the path item
  has one. The operations met are collected in the order of the walk; a counter that
  the source increments in the loop is the length of a filtered list.
\<close>

definition pathItems :: "Document \<Rightarrow> PathItem list" where
  "pathItems document =
     (case doc_paths document of
        None \<Rightarrow> []
      | Some ps \<Rightarrow> List.map_filter snd ps)"

text \<open>The methods \<open>get, post, put, patch, delete\<close>.\<close>

definition methods5 :: "PathItem \<Rightarrow> Operation list" where
  "methods5 pathItem =
     List.map_filter id
       [pi_get pathItem, pi_post pathItem, pi_put pathItem, pi_patch pathItem,
        pi_delete pathItem]"

text \<open>The methods \<open>get, post, put, patch, delete, options, head, trace\<close>.\<close>

definition methods8 :: "PathItem \<Rightarrow> Operation list" where
  "methods8 pathItem =
     List.map_filter id
       [pi_get pathItem, pi_post pathItem, pi_put pathItem, pi_patch pathItem,
        pi_delete pathItem, pi_options pathItem, pi_head pathItem, pi_trace pathItem]"

definition operations5 :: "Document \<Rightarrow> Operation list" where
  "operations5 document = concat (map methods5 (pathItems document))"

definition operations8 :: "Document \<Rightarrow> Operation list" where
  "operations8 document = concat (map methods8 (pathItems document))"

definition count :: "('a \<Rightarrow> bool) \<Rightarrow> 'a list \<Rightarrow> nat" where
  "count P xs = length (filter P xs)"

text \<open>
  The local variables an evaluator updates: the score so far, the findings
  (\<open>feedback\<close>) and the suggestions.
\<close>

type_synonym tally = "jsnum \<times> string list \<times> string list"

definition award :: "jsnum \<Rightarrow> tally \<Rightarrow> tally" where
  "award x t = (case t of (s, f, g) \<Rightarrow> (js_add s x, f, g))"

definition finding :: "string \<Rightarrow> tally \<Rightarrow> tally" where
  "finding x t = (case t of (s, f, g) \<Rightarrow> (s, f @ [x], g))"

definition suggest :: "string \<Rightarrow> tally \<Rightarrow> tally" where
  "suggest x t = (case t of (s, f, g) \<Rightarrow> (s, f, g @ [x]))"

text \<open>The \<open>return\<close> statement that ends every evaluator.\<close>

definition result :: "string \<Rightarrow> jsnum \<Rightarrow> tally \<Rightarrow> CriteriaScore" where
  "result n m t =
     (case t of (s, f, g) \<Rightarrow>
        \<lparr>name = n, score = js_round s, maxScore = m,
         percentage = js_round (js_mul (js_div s m) (Fin 100)),
         feedback = f, suggestions = g\<rparr>)"

section \<open>Schema and types (20 points)\<close>

text \<open>\<open>document.components?.schemas || {}\<close>.\<close>

definition schemasOf :: "Document \<Rightarrow> (string \<times> SchemaOrRef) list" where
  "schemasOf document =
     (case doc_components document of
        None \<Rightarrow> []
      | Some c \<Rightarrow> (case comp_schemas c of None \<Rightarrow> [] | Some s \<Rightarrow> s))"

text \<open>
  The two branches of the loop over the named schemas: a schema with a \<open>type\<close> key
  whose type is \<open>object\<close> and whose \<open>properties\<close> is truthy (an object, also an
  empty one, is truthy) is properly typed; otherwise one whose type is \<open>object\<close>
  with neither \<open>properties\<close> nor a truthy \<open>additionalProperties\<close> is free-form. A
  reference has no \<open>type\<close> key.
\<close>

fun properlyTyped :: "SchemaOrRef \<Rightarrow> bool" where
  "properlyTyped (SchemaRef r) = False"
| "properlyTyped (Schema s) =
     (case schema_type s of
        None \<Rightarrow> False
      | Some t \<Rightarrow> t = ''object'' \<and> schema_properties s \<noteq> None)"

fun freeForm :: "SchemaOrRef \<Rightarrow> bool" where
  "freeForm (SchemaRef r) = False"
| "freeForm (Schema s) =
     (case schema_type s of
        None \<Rightarrow> False
      | Some t \<Rightarrow>
          \<not> (t = ''object'' \<and> schema_properties s \<noteq> None) \<and>
          t = ''object'' \<and> schema_properties s = None \<and>
          \<not> truthy_additional (schema_additionalProperties s))"

definition properlyTypedSchemas :: "Document \<Rightarrow> nat" where
  "properlyTypedSchemas document = count properlyTyped (map snd (schemasOf document))"

definition freeFormObjects :: "Document \<Rightarrow> nat" where
  "freeFormObjects document = count freeForm (map snd (schemasOf document))"

text \<open>The media-type entries of a content mapping that carry a schema.\<close>

definition withSchema :: "(string \<times> MediaType) list \<Rightarrow> nat" where
  "withSchema content = count (\<lambda>mediaType. mt_schema mediaType \<noteq> None) (map snd content)"

fun requestSchemas :: "RequestBody option \<Rightarrow> nat" where
  "requestSchemas (Some (RequestBodyObject content)) = withSchema content"
| "requestSchemas _ = 0"

fun responseSchemas :: "Response \<Rightarrow> nat" where
  "responseSchemas (ResponseObject d (Some content)) = withSchema content"
| "responseSchemas _ = 0"

text \<open>What one operation adds to \<open>operationsWithSchemas\<close>.\<close>

definition schemaUsages :: "Operation \<Rightarrow> nat" where
  "schemaUsages operation =
     requestSchemas (op_requestBody operation) +
     sum_list (map (\<lambda>r. responseSchemas (snd r)) (op_responses operation))"

definition operationsWithSchemas :: "Document \<Rightarrow> nat" where
  "operationsWithSchemas document = sum_list (map schemaUsages (operations5 document))"

text \<open>The term added for properly typed schemas, and the term for schema usage.\<close>

definition properlyTypedTerm :: "Document \<Rightarrow> jsnum" where
  "properlyTypedTerm document =
     js_min (Fin 10)
       (js_mul (js_div (js_num (properlyTypedSchemas document))
                  (js_num (max (length (schemasOf document)) 1)))
          (Fin 10))"

definition schemaUsageRatio :: "Document \<Rightarrow> jsnum" where
  "schemaUsageRatio document =
     js_div (js_num (operationsWithSchemas document))
       (js_mul (js_num (length (operations5 document))) (Fin 2))"

definition schemaUsageTerm :: "Document \<Rightarrow> jsnum" where
  "schemaUsageTerm document = js_min (Fin 5) (js_mul (schemaUsageRatio document) (Fin 5))"

definition scoreSchemaAndTypes_tally :: "Document \<Rightarrow> tally" where
  "scoreSchemaAndTypes_tally document =
     (let schemaCount = length (schemasOf document);
          t = (Fin 0, [], []);
          t = (if schemaCount > 0
               then finding (''Found '' @ string_of_nat schemaCount @ '' schema definitions'')
                      (award (Fin 5) t)
               else suggest ''Define reusable schemas in components.schemas''
                      (finding ''No schema definitions found'' t));
          t = (if properlyTypedSchemas document > 0
               then finding (string_of_nat (properlyTypedSchemas document) @
                             '' schemas have proper type definitions'')
                      (award (properlyTypedTerm document) t)
               else t);
          t = (if freeFormObjects document > 0
               then suggest ''Define specific properties for object schemas instead of using free-form objects''
                      (finding (string_of_nat (freeFormObjects document) @
                                '' schemas are free-form objects without properties'') t)
               else t);
          t = (if length (operations5 document) > 0
               then finding (js_toString (js_round (js_mul (schemaUsageRatio document) (Fin 100))) @
                             ''% of operations use proper schemas'')
                      (award (schemaUsageTerm document) t)
               else t);
          t = (if js_lt (fst t) (js_mul (Fin 20) (Fin (1 / 2)))
               then suggest ''Increase use of strongly-typed schemas throughout the API'' t
               else t)
      in t)"

definition scoreSchemaAndTypes :: "Document \<Rightarrow> CriteriaScore" where
  "scoreSchemaAndTypes document =
     result ''Schema & Types'' (Fin 20) (scoreSchemaAndTypes_tally document)"

section \<open>Descriptions and documentation (20 points)\<close>

fun describedParameter :: "Parameter \<Rightarrow> bool" where
  "describedParameter (ParameterRef r) = False"
| "describedParameter (ParameterObject d) = truthy_string d"

fun describedResponse :: "Response \<Rightarrow> bool" where
  "describedResponse (ResponseRef r) = False"
| "describedResponse (ResponseObject d c) = truthy_string d"

fun parametersOf :: "Operation \<Rightarrow> Parameter list" where
  "parametersOf operation = (case op_parameters operation of None \<Rightarrow> [] | Some ps \<Rightarrow> ps)"

fun longerThan :: "nat \<Rightarrow> string option \<Rightarrow> bool" where
  "longerThan n None = False"
| "longerThan n (Some s) = (s \<noteq> [] \<and> length s > n)"

definition totalPaths :: "Document \<Rightarrow> nat" where
  "totalPaths document = (case doc_paths document of None \<Rightarrow> 0 | Some ps \<Rightarrow> length ps)"

definition pathsWithDescriptions :: "Document \<Rightarrow> nat" where
  "pathsWithDescriptions document =
     count (\<lambda>pathItem. truthy_string (pi_description pathItem)) (pathItems document)"

definition operationsWithDescriptions :: "Document \<Rightarrow> nat" where
  "operationsWithDescriptions document =
     count (\<lambda>operation. longerThan 5 (op_description operation)) (operations8 document)"

definition totalParameters :: "Document \<Rightarrow> nat" where
  "totalParameters document = length (concat (map parametersOf (operations8 document)))"

definition parametersWithDescriptions :: "Document \<Rightarrow> nat" where
  "parametersWithDescriptions document =
     count describedParameter (concat (map parametersOf (operations8 document)))"

definition totalResponses8 :: "Document \<Rightarrow> nat" where
  "totalResponses8 document = length (concat (map op_responses (operations8 document)))"

definition responsesWithDescriptions :: "Document \<Rightarrow> nat" where
  "responsesWithDescriptions document =
     count (\<lambda>r. describedResponse (snd r)) (concat (map op_responses (operations8 document)))"

text \<open>\<open>(part / whole) * points\<close>.\<close>

definition share :: "nat \<Rightarrow> nat \<Rightarrow> rat \<Rightarrow> jsnum" where
  "share part whole points = js_mul (js_div (js_num part) (js_num whole)) (Fin points)"

definition scoreDescriptions_tally :: "Document \<Rightarrow> tally" where
  "scoreDescriptions_tally document =
     (let t = (Fin 0, [], []);
          t = (if longerThan 10 (info_description (doc_info document))
               then finding ''API has a meaningful description'' (award (Fin 3) t)
               else suggest ''Add a comprehensive description to the API info object'' t);
          totalOperations = length (operations8 document);
          t = (if totalOperations > 0
               then finding (string_of_nat (operationsWithDescriptions document) @ ''/'' @
                             string_of_nat totalOperations @ '' operations have descriptions'')
                      (award (share (operationsWithDescriptions document) totalOperations 8) t)
               else t);
          t = (if totalParameters document > 0
               then finding (string_of_nat (parametersWithDescriptions document) @ ''/'' @
                             string_of_nat (totalParameters document) @
                             '' parameters have descriptions'')
                      (award (share (parametersWithDescriptions document)
                                (totalParameters document) 4) t)
               else t);
          t = (if totalResponses8 document > 0
               then finding (string_of_nat (responsesWithDescriptions document) @ ''/'' @
                             string_of_nat (totalResponses8 document) @
                             '' responses have descriptions'')
                      (award (share (responsesWithDescriptions document)
                                (totalResponses8 document) 3) t)
               else t);
          t = (if totalPaths document > 0
               then award (share (pathsWithDescriptions document) (totalPaths document) 2) t
               else t);
          t = (if js_lt (fst t) (js_mul (Fin 20) (Fin (7 / 10)))
               then suggest ''Use meaningful descriptions that explain the purpose and behavior''
                      (suggest ''Add descriptions to all operations, parameters, and responses'' t)
               else t)
      in t)"

definition scoreDescriptions :: "Document \<Rightarrow> CriteriaScore" where
  "scoreDescriptions document =
     result ''Descriptions & Documentation'' (Fin 20) (scoreDescriptions_tally document)"

section \<open>Paths and operations (15 points)\<close>

definition upperCase :: "char \<Rightarrow> bool" where
  "upperCase c = (65 \<le> (of_char c :: nat) \<and> (of_char c :: nat) \<le> 90)"

text \<open>A character of the class \<open>[a-z0-9-]\<close>.\<close>

definition nameChar :: "char \<Rightarrow> bool" where
  "nameChar c =
     ((97 \<le> (of_char c :: nat) \<and> (of_char c :: nat) \<le> 122) \<or>
      (48 \<le> (of_char c :: nat) \<and> (of_char c :: nat) \<le> 57) \<or>
      c = CHR ''-'')"

text \<open>
  The test that sets \<open>isWellNamed\<close> to false for a segment: it includes an
  underscore, or matches \<open>/[A-Z]/\<close>, or does not match \<open>/^[a-z0-9-]+$/\<close>.
\<close>

definition badSegment :: "string \<Rightarrow> bool" where
  "badSegment segment =
     (CHR ''_'' \<in> set segment \<or> list_ex upperCase segment \<or>
      \<not> (segment \<noteq> [] \<and> list_all nameChar segment))"

definition pathSegments :: "string \<Rightarrow> string list" where
  "pathSegments path =
     filter (\<lambda>segment. segment \<noteq> [] \<and> \<not> startsWith segment CHR ''{'')
       (split CHR ''/'' path)"

definition isWellNamed :: "string \<Rightarrow> bool" where
  "isWellNamed path = (\<not> list_ex badSegment (pathSegments path))"

text \<open>
  \<open>path.replace(/\{[^}]+\}/g, '{id}')\<close>: scanning from the left, an opening brace
  followed by one or more characters other than a closing brace and then a closing
  brace is replaced by \<open>{id}\<close>, and the scan goes on behind the closing brace; any
  other character is kept.
\<close>

function normalizedPath :: "string \<Rightarrow> string" where
  "normalizedPath [] = []"
| "normalizedPath (c # cs) =
     (if c = CHR ''{'' \<and> takeWhile (\<lambda>x. x \<noteq> CHR ''}'') cs \<noteq> [] \<and>
         dropWhile (\<lambda>x. x \<noteq> CHR ''}'') cs \<noteq> []
      then ''{id}'' @ normalizedPath (tl (dropWhile (\<lambda>x. x \<noteq> CHR ''}'') cs))
      else c # normalizedPath cs)"
  by pat_completeness auto
termination
proof (relation "measure length")
  show "wf (measure length)" by simp
next
  fix c :: char and cs :: string
  have "length (tl (dropWhile (\<lambda>x. x \<noteq> CHR ''}'') cs)) \<le> length cs"
    using length_dropWhile_le [of "\<lambda>x. x \<noteq> CHR ''}''" cs] by simp
  then show "(tl (dropWhile (\<lambda>x. x \<noteq> CHR ''}'') cs), c # cs) \<in> measure length"
    by simp
next
  fix c :: char and cs :: string
  show "(cs, c # cs) \<in> measure length" by simp
qed

text \<open>
  \<open>Object.keys(pathItem).filter(key => ['get', 'post', 'put', 'patch',
  'delete'].includes(key))\<close>.
\<close>

definition methodKeys :: "PathItem \<Rightarrow> string list" where
  "methodKeys pathItem =
     (if pi_get pathItem \<noteq> None then [''get''] else []) @
     (if pi_post pathItem \<noteq> None then [''post''] else []) @
     (if pi_put pathItem \<noteq> None then [''put''] else []) @
     (if pi_patch pathItem \<noteq> None then [''patch''] else []) @
     (if pi_delete pathItem \<noteq> None then [''delete''] else [])"

text \<open>The path item is there and has at least one of the five methods.\<close>

fun hasMethods :: "PathItem option \<Rightarrow> bool" where
  "hasMethods None = False"
| "hasMethods (Some pathItem) = (length (methodKeys pathItem) > 0)"

fun crudPath :: "PathItem option \<Rightarrow> bool" where
  "crudPath None = False"
| "crudPath (Some pathItem) =
     (length (methodKeys pathItem) > 0 \<and> ''get'' \<in> set (methodKeys pathItem) \<and>
      ''post'' \<in> set (methodKeys pathItem))"

definition wellNamedPaths :: "(string \<times> PathItem option) list \<Rightarrow> nat" where
  "wellNamedPaths ps = count (\<lambda>p. isWellNamed (fst p)) ps"

definition crudPaths :: "(string \<times> PathItem option) list \<Rightarrow> nat" where
  "crudPaths ps = count (\<lambda>p. crudPath (snd p)) ps"

text \<open>
  What the loop over the paths does to \<open>pathPatterns\<close> for one path: the normalized
  path is added if the path item is there and has one of the five methods.
\<close>

definition patternStep :: "string list \<Rightarrow> string \<times> PathItem option \<Rightarrow> string list" where
  "patternStep s p = (if hasMethods (snd p) then set_add (normalizedPath (fst p)) s else s)"

definition pathPatterns :: "(string \<times> PathItem option) list \<Rightarrow> string list" where
  "pathPatterns ps = foldl patternStep [] ps"

definition overlappingPaths :: "(string \<times> PathItem option) list \<Rightarrow> nat" where
  "overlappingPaths ps = length ps - length (pathPatterns ps)"

definition scorePathsAndOperations_tally :: "(string \<times> PathItem option) list \<Rightarrow> tally" where
  "scorePathsAndOperations_tally ps =
     (let pathCount = length ps;
          t = (Fin 0, [], []);
          t = finding (string_of_nat (wellNamedPaths ps) @ ''/'' @ string_of_nat pathCount @
                       '' paths follow RESTful naming conventions'')
                (award (share (wellNamedPaths ps) pathCount 7) t);
          t = (if crudPaths ps > 0
               then finding (''Found '' @ string_of_nat (crudPaths ps) @
                             '' CRUD-pattern endpoints'')
                      (award (js_min (Fin 5) (js_mul (js_num (crudPaths ps)) (Fin 2))) t)
               else t);
          t = (if overlappingPaths ps = 0
               then finding ''No overlapping or redundant paths detected'' (award (Fin 3) t)
               else suggest ''Review path structure for redundancy''
                      (finding (string_of_nat (overlappingPaths ps) @
                                '' potentially overlapping paths detected'') t));
          t = (if js_lt (fst t) (js_mul (Fin 15) (Fin (3 / 5)))
               then suggest ''Implement consistent CRUD operations for resources''
                      (suggest ''Use RESTful naming conventions (lowercase, hyphens, nouns)'' t)
               else t)
      in t)"

definition scorePathsAndOperations :: "Document \<Rightarrow> CriteriaScore" where
  "scorePathsAndOperations document =
     (case doc_paths document of
        None \<Rightarrow>
          \<lparr>name = ''Paths & Operations'', score = Fin 0, maxScore = Fin 15,
           percentage = Fin 0, feedback = [''No paths defined''],
           suggestions = [''Define API paths and operations'']\<rparr>
      | Some ps \<Rightarrow>
          result ''Paths & Operations'' (Fin 15) (scorePathsAndOperations_tally ps))"

section \<open>Response codes (15 points)\<close>

definition responseCodes :: "Operation \<Rightarrow> string list" where
  "responseCodes operation = map fst (op_responses operation)"

definition hasSuccess :: "Operation \<Rightarrow> bool" where
  "hasSuccess operation =
     list_ex (\<lambda>code. startsWith code CHR ''2'') (responseCodes operation)"

definition hasError :: "Operation \<Rightarrow> bool" where
  "hasError operation =
     list_ex (\<lambda>code. startsWith code CHR ''4'' \<or> startsWith code CHR ''5'')
       (responseCodes operation)"

definition operationsWithSuccess :: "Document \<Rightarrow> nat" where
  "operationsWithSuccess document = count hasSuccess (operations5 document)"

definition operationsWithErrors :: "Document \<Rightarrow> nat" where
  "operationsWithErrors document = count hasError (operations5 document)"

definition operationsWithMultipleResponses :: "Document \<Rightarrow> nat" where
  "operationsWithMultipleResponses document =
     count (\<lambda>operation. length (responseCodes operation) > 1) (operations5 document)"

definition statusCodesUsed :: "Document \<Rightarrow> string list" where
  "statusCodesUsed document =
     foldl (\<lambda>s code. set_add code s) [] (concat (map responseCodes (operations5 document)))"

definition scoreResponseCodes_tally :: "Document \<Rightarrow> tally" where
  "scoreResponseCodes_tally document =
     (let totalOperations = length (operations5 document);
          t = (Fin 0, [], []);
          t = (if totalOperations > 0
               then finding (string_of_nat (operationsWithMultipleResponses document) @ ''/'' @
                             string_of_nat totalOperations @
                             '' operations define multiple response codes'')
                   (finding (string_of_nat (operationsWithErrors document) @ ''/'' @
                             string_of_nat totalOperations @
                             '' operations define error responses'')
                   (finding (string_of_nat (operationsWithSuccess document) @ ''/'' @
                             string_of_nat totalOperations @
                             '' operations define success responses'')
                   (award (share (operationsWithMultipleResponses document) totalOperations 3)
                   (award (share (operationsWithErrors document) totalOperations 6)
                   (award (share (operationsWithSuccess document) totalOperations 6) t)))))
               else t);
          hasAppropriateSuccess =
            list_ex (set_has (statusCodesUsed document)) [''200'', ''201'', ''202'', ''204''];
          hasAppropriateErrors =
            list_ex (set_has (statusCodesUsed document))
              [''400'', ''401'', ''403'', ''404'', ''409'', ''422'', ''500''];
          t = (if hasAppropriateSuccess \<and> hasAppropriateErrors
               then finding ''Uses appropriate HTTP status codes'' t
               else suggest ''Use standard HTTP status codes (200, 201, 400, 404, 500, etc.)'' t);
          t = (if js_lt (fst t) (js_mul (Fin 15) (Fin (1 / 2)))
               then suggest ''Use specific status codes rather than just 200 and 500''
                      (suggest ''Define both success and error responses for all operations'' t)
               else t)
      in t)"

definition scoreResponseCodes :: "Document \<Rightarrow> CriteriaScore" where
  "scoreResponseCodes document =
     (case doc_paths document of
        None \<Rightarrow>
          \<lparr>name = ''Response Codes'', score = Fin 0, maxScore = Fin 15,
           percentage = Fin 0, feedback = [''No paths defined''],
           suggestions = [''Define API operations with proper response codes'']\<rparr>
      | Some ps \<Rightarrow> result ''Response Codes'' (Fin 15) (scoreResponseCodes_tally document))"

section \<open>Examples and samples (10 points)\<close>

text \<open>\<open>mediaType.example || mediaType.examples\<close>, as a condition.\<close>

definition hasExample :: "MediaType \<Rightarrow> bool" where
  "hasExample mediaType =
     ((case mt_example mediaType of None \<Rightarrow> False | Some v \<Rightarrow> truthy v) \<or>
      mt_examples mediaType \<noteq> None)"

definition someExample :: "(string \<times> MediaType) list \<Rightarrow> bool" where
  "someExample content = list_ex hasExample (map snd content)"

fun hasBody :: "Operation \<Rightarrow> bool" where
  "hasBody operation =
     (case op_requestBody operation of Some (RequestBodyObject content) \<Rightarrow> True | _ \<Rightarrow> False)"

fun hasRequestExample :: "Operation \<Rightarrow> bool" where
  "hasRequestExample operation =
     (case op_requestBody operation of
        Some (RequestBodyObject content) \<Rightarrow> someExample content
      | _ \<Rightarrow> False)"

fun hasContent :: "Response \<Rightarrow> bool" where
  "hasContent (ResponseObject d (Some content)) = True"
| "hasContent _ = False"

fun hasResponseExample :: "Response \<Rightarrow> bool" where
  "hasResponseExample (ResponseObject d (Some content)) = someExample content"
| "hasResponseExample _ = False"

definition responses5 :: "Document \<Rightarrow> Response list" where
  "responses5 document = map snd (concat (map op_responses (operations5 document)))"

definition totalOperationsWithBodies :: "Document \<Rightarrow> nat" where
  "totalOperationsWithBodies document = count hasBody (operations5 document)"

definition operationsWithRequestExamples :: "Document \<Rightarrow> nat" where
  "operationsWithRequestExamples document = count hasRequestExample (operations5 document)"

definition totalResponses :: "Document \<Rightarrow> nat" where
  "totalResponses document = count hasContent (responses5 document)"

definition operationsWithResponseExamples :: "Document \<Rightarrow> nat" where
  "operationsWithResponseExamples document = count hasResponseExample (responses5 document)"

definition scoreExamples_tally :: "Document \<Rightarrow> tally" where
  "scoreExamples_tally document =
     (let t = (Fin 0, [], []);
          t = (if totalOperationsWithBodies document > 0
               then finding (string_of_nat (operationsWithRequestExamples document) @ ''/'' @
                             string_of_nat (totalOperationsWithBodies document) @
                             '' request bodies have examples'')
                      (award (share (operationsWithRequestExamples document)
                                (totalOperationsWithBodies document) 5) t)
               else t);
          t = (if totalResponses document > 0
               then finding (string_of_nat (operationsWithResponseExamples document) @ ''/'' @
                             string_of_nat (totalResponses document) @
                             '' responses have examples'')
                      (award (share (operationsWithResponseExamples document)
                                (totalResponses document) 5) t)
               else t);
          t = (if js_lt (fst t) (js_mul (Fin 10) (Fin (3 / 10)))
               then suggest ''Examples help developers understand expected data formats''
                      (suggest ''Add examples to request bodies and response content'' t)
               else t)
      in t)"

definition scoreExamples :: "Document \<Rightarrow> CriteriaScore" where
  "scoreExamples document =
     (case doc_paths document of
        None \<Rightarrow>
          \<lparr>name = ''Examples & Samples'', score = Fin 0, maxScore = Fin 10,
           percentage = Fin 0, feedback = [''No paths defined''],
           suggestions = [''Add request and response examples'']\<rparr>
      | Some ps \<Rightarrow> result ''Examples & Samples'' (Fin 10) (scoreExamples_tally document))"

section \<open>Security (10 points)\<close>

text \<open>The number of keys of \<open>document.components?.securitySchemes || {}\<close>.\<close>

definition schemeCount :: "Document \<Rightarrow> nat" where
  "schemeCount document =
     (case doc_components document of
        None \<Rightarrow> 0
      | Some c \<Rightarrow> (case comp_securitySchemes c of None \<Rightarrow> 0 | Some s \<Rightarrow> length s))"

text \<open>\<open>document.security && document.security.length > 0\<close>.\<close>

definition globalSecurity :: "Document \<Rightarrow> bool" where
  "globalSecurity document =
     (case doc_security document of None \<Rightarrow> False | Some rs \<Rightarrow> length rs > 0)"

text \<open>
  \<open>if (operation.security)\<close>: the field is there. Its value is an array, and an
  array, also the empty one, is truthy.
\<close>

definition hasSecurity :: "Operation \<Rightarrow> bool" where
  "hasSecurity operation = (op_security operation \<noteq> None)"

definition operationsWithSecurity :: "Document \<Rightarrow> nat" where
  "operationsWithSecurity document = count hasSecurity (operations5 document)"

definition scoreSecurity_tally :: "Document \<Rightarrow> tally" where
  "scoreSecurity_tally document =
     (let t = (Fin 0, [], []);
          t = (if schemeCount document > 0
               then finding (''Found '' @ string_of_nat (schemeCount document) @
                             '' security scheme(s) defined'')
                      (award (js_min (Fin 5) (js_mul (js_num (schemeCount document)) (Fin 2))) t)
               else suggest ''Define security schemes in components.securitySchemes'' t);
          t = (if globalSecurity document
               then finding ''Global security requirements defined'' (award (Fin 3) t)
               else t);
          totalOperations = length (operations5 document);
          t = (if totalOperations > 0 \<and> operationsWithSecurity document > 0
               then finding (string_of_nat (operationsWithSecurity document) @ ''/'' @
                             string_of_nat totalOperations @
                             '' operations have specific security requirements'')
                      (award (share (operationsWithSecurity document) totalOperations 2) t)
               else t);
          t = (if js_eq (fst t) (Fin 0)
               then suggest ''Consider API keys, OAuth2, or JWT tokens''
                      (suggest ''Implement authentication and authorization schemes'' t)
               else t)
      in t)"

definition scoreSecurity :: "Document \<Rightarrow> CriteriaScore" where
  "scoreSecurity document = result ''Security'' (Fin 10) (scoreSecurity_tally document)"

section \<open>Best practices (10 points)\<close>

text \<open>\<open>document.servers && document.servers.length > 0\<close>.\<close>

definition serverCount :: "Document \<Rightarrow> nat" where
  "serverCount document = (case doc_servers document of None \<Rightarrow> 0 | Some l \<Rightarrow> length l)"

text \<open>\<open>document.info.version && document.info.version !== '1.0.0'\<close>.\<close>

definition versioned :: "Document \<Rightarrow> bool" where
  "versioned document =
     (case info_version (doc_info document) of
        None \<Rightarrow> False
      | Some v \<Rightarrow> v \<noteq> [] \<and> v \<noteq> ''1.0.0'')"

definition versionText :: "Document \<Rightarrow> string" where
  "versionText document = (case info_version (doc_info document) of None \<Rightarrow> [] | Some v \<Rightarrow> v)"

definition operationsWithTags :: "Document \<Rightarrow> nat" where
  "operationsWithTags document =
     count (\<lambda>operation. case op_tags operation of None \<Rightarrow> False | Some l \<Rightarrow> length l > 0)
       (operations5 document)"

text \<open>
  The component types \<open>schemas, responses, parameters, examples, requestBodies,
  headers\<close> that are there and have at least one key.
\<close>

fun filled :: "'a list option \<Rightarrow> bool" where
  "filled None = False"
| "filled (Some l) = (length l > 0)"

definition componentsWithContent :: "Document \<Rightarrow> nat" where
  "componentsWithContent document =
     (case doc_components document of
        None \<Rightarrow> 0
      | Some c \<Rightarrow>
          count id
            [filled (comp_schemas c), filled (comp_responses c), filled (comp_parameters c),
             filled (comp_examples c), filled (comp_requestBodies c), filled (comp_headers c)])"

definition scoreBestPractices_tally :: "Document \<Rightarrow> tally" where
  "scoreBestPractices_tally document =
     (let t = (Fin 0, [], []);
          t = (if serverCount document > 0
               then finding (string_of_nat (serverCount document) @ '' server(s) defined'')
                      (award (Fin 2) t)
               else suggest ''Define servers array with API base URLs'' t);
          t = (if versioned document
               then finding (''API version: '' @ versionText document) (award (Fin 2) t)
               else t);
          totalOperations = length (operations5 document);
          t = (if totalOperations > 0
               then finding (string_of_nat (operationsWithTags document) @ ''/'' @
                             string_of_nat totalOperations @ '' operations have tags'')
                      (award (share (operationsWithTags document) totalOperations 3) t)
               else t);
          t = (if componentsWithContent document > 1
               then finding (''Uses '' @ string_of_nat (componentsWithContent document) @
                             '' component types for reusability'')
                      (award (Fin 2) t)
               else t);
          t = (if doc_externalDocs document \<noteq> None
               then finding ''External documentation referenced'' (award (Fin 1) t)
               else t);
          t = (if js_lt (fst t) (js_mul (Fin 10) (Fin (2 / 5)))
               then suggest ''Define multiple servers for different environments''
                      (suggest ''Use components for reusable elements''
                      (suggest ''Add tags to organize operations'' t))
               else t)
      in t)"

definition scoreBestPractices :: "Document \<Rightarrow> CriteriaScore" where
  "scoreBestPractices document =
     result ''Best Practices'' (Fin 10) (scoreBestPractices_tally document)"

section \<open>The aggregator\<close>

record ScoringResult =
  totalScore :: jsnum
  grade :: string
  criteria :: "CriteriaScore list"
  overallFeedback :: "string list"
  scoredDocument :: Document

definition calculateGrade :: "jsnum \<Rightarrow> string" where
  "calculateGrade s =
     (if js_ge s (Fin 80) then ''A''
      else if js_ge s (Fin 70) then ''B''
      else if js_ge s (Fin 60) then ''C''
      else if js_ge s (Fin 50) then ''D''
      else ''F'')"

text \<open>
  The weak areas: the criteria whose percentage is below the cutoff, sorted by
  \<open>(a, b) => a.percentage - b.percentage\<close>, the first three of them. The filter
  keeps no criterion whose percentage is \<open>NaN\<close>, so the comparator orders the
  criteria it is given by their percentage; \<open>Array.prototype.sort\<close> is stable, as
  \<open>sort_key\<close> is.
\<close>

fun percentageValue :: "CriteriaScore \<Rightarrow> rat" where
  "percentageValue c = (case percentage c of Fin r \<Rightarrow> r | NaN \<Rightarrow> 0)"

text \<open>\<open>c.percentage < cutoff\<close>.\<close>

definition below :: "rat \<Rightarrow> CriteriaScore \<Rightarrow> bool" where
  "below cutoff c = js_lt (percentage c) (Fin cutoff)"

definition weakAreas :: "rat \<Rightarrow> CriteriaScore list \<Rightarrow> CriteriaScore list" where
  "weakAreas cutoff cs = take 3 (sort_key percentageValue (filter (below cutoff) cs))"

definition weakAreaLine :: "rat \<Rightarrow> CriteriaScore list \<Rightarrow> string list" where
  "weakAreaLine cutoff cs =
     (if length (weakAreas cutoff cs) > 0
      then [''Focus on improving: '' @ join '', '' (map name (weakAreas cutoff cs))]
      else [])"

text \<open>
  The repository holds two copies of the scorer. They agree on \<open>scoreSpec\<close> and
  \<open>calculateGrade\<close>; \<open>generateOverallFeedback\<close> of the first copy has the bands 90,
  80, 70, 60 and the cutoff 60 for weak areas, that of the second copy (the one that
  also writes Markdown and HTML reports) has the bands 80, 70, 60, 50 and the
  cutoff 50.
\<close>

definition generateOverallFeedback :: "jsnum \<Rightarrow> CriteriaScore list \<Rightarrow> string list" where
  "generateOverallFeedback total_score cs =
     [if js_ge total_score (Fin 90)
      then ''Excellent! Your OpenAPI specification follows industry best practices.''
      else if js_ge total_score (Fin 80)
      then ''Good job! Your API specification is well-structured with minor areas for improvement.''
      else if js_ge total_score (Fin 70)
      then ''Your API specification is decent but has several areas that could be improved.''
      else if js_ge total_score (Fin 60)
      then ''Your API specification needs significant improvements to meet best practices.''
      else ''Your API specification requires major improvements across multiple areas.'']
     @ weakAreaLine 60 cs"

definition generateOverallFeedback2 :: "jsnum \<Rightarrow> CriteriaScore list \<Rightarrow> string list" where
  "generateOverallFeedback2 total_score cs =
     [if js_ge total_score (Fin 80)
      then ''Excellent! Your OpenAPI specification follows industry best practices.''
      else if js_ge total_score (Fin 70)
      then ''Good job! Your API specification is well-structured with minor areas for improvement.''
      else if js_ge total_score (Fin 60)
      then ''Your API specification is decent but has several areas that could be improved.''
      else if js_ge total_score (Fin 50)
      then ''Your API specification needs significant improvements to meet best practices.''
      else ''Your API specification requires major improvements across multiple areas.'']
     @ weakAreaLine 50 cs"

text \<open>The seven evaluators, in the order in which \<open>scoreSpec\<close> lists their results.\<close>

definition evaluate :: "Document \<Rightarrow> CriteriaScore list" where
  "evaluate document =
     [scoreSchemaAndTypes document, scoreDescriptions document,
      scorePathsAndOperations document, scoreResponseCodes document,
      scoreExamples document, scoreSecurity document, scoreBestPractices document]"

text \<open>\<open>criteria.reduce((sum, criteria) => sum + criteria.score, 0)\<close>.\<close>

definition sumScores :: "CriteriaScore list \<Rightarrow> jsnum" where
  "sumScores cs = foldl (\<lambda>sum c. js_add sum (score c)) (Fin 0) cs"

text \<open>
  \<open>scoreSpec\<close> from the parsed document on (reading and parsing the source, the
  progress messages and the delays between the evaluators are left out).
\<close>

definition scoreSpec :: "Document \<Rightarrow> ScoringResult" where
  "scoreSpec document =
     (let cs = evaluate document;
          total_score = sumScores cs
      in \<lparr>totalScore = total_score, grade = calculateGrade total_score, criteria = cs,
          overallFeedback = generateOverallFeedback total_score cs,
          scoredDocument = document\<rparr>)"

definition scoreSpec2 :: "Document \<Rightarrow> ScoringResult" where
  "scoreSpec2 document =
     (let cs = evaluate document;
          total_score = sumScores cs
      in \<lparr>totalScore = total_score, grade = calculateGrade total_score, criteria = cs,
          overallFeedback = generateOverallFeedback2 total_score cs,
          scoredDocument = document\<rparr>)"

section \<open>Documents and criteria used as examples\<close>

definition plainOperation :: Operation where
  "plainOperation =
     \<lparr>op_description = None, op_tags = None, op_parameters = None, op_requestBody = None,
      op_responses = [(''200'', ResponseObject (Some ''Success'') None)],
      op_security = None\<rparr>"

definition noOperations :: PathItem where
  "noOperations =
     \<lparr>pi_description = None, pi_get = None, pi_post = None, pi_put = None, pi_patch = None,
      pi_delete = None, pi_options = None, pi_head = None, pi_trace = None\<rparr>"

text \<open>
  The minimal document: title \<open>Minimal API\<close>, version \<open>1.0.0\<close>, the one path
  \<open>/test\<close> with a \<open>get\<close> operation whose only response is \<open>200\<close> with a description.
\<close>

definition minimalDocument :: Document where
  "minimalDocument =
     \<lparr>doc_info = \<lparr>info_title = ''Minimal API'', info_version = Some ''1.0.0'',
                  info_description = None\<rparr>,
      doc_servers = None, doc_security = None,
      doc_paths = Some [(''/test'', Some (noOperations\<lparr>pi_get := Some plainOperation\<rparr>))],
      doc_components = None, doc_externalDocs = None\<rparr>"

text \<open>The same document with \<open>paths: {}\<close>.\<close>

definition emptyPathsDocument :: Document where
  "emptyPathsDocument = minimalDocument\<lparr>doc_paths := Some []\<rparr>"

text \<open>The grades in their order, \<open>F\<close> lowest.\<close>

definition gradeRank :: "string \<Rightarrow> nat" where
  "gradeRank g =
     (if g = ''A'' then 4 else if g = ''B'' then 3 else if g = ''C'' then 2
      else if g = ''D'' then 1 else 0)"


text \<open>
  One path with three operations, of which \<open>get\<close> carries \<open>security: []\<close>.
\<close>

definition overrideDocument :: Document where
  "overrideDocument =
     minimalDocument\<lparr>doc_paths :=
       Some [(''/test'',
              Some (noOperations\<lparr>pi_get := Some (plainOperation\<lparr>op_security := Some []\<rparr>),
                                  pi_post := Some plainOperation,
                                  pi_put := Some plainOperation\<rparr>))]\<rparr>"

text \<open>A number from 0 to \<open>hi\<close>; a whole number from 0 to \<open>hi\<close>.\<close>

definition inRange :: "rat \<Rightarrow> jsnum \<Rightarrow> bool" where
  "inRange hi x = (case x of Fin r \<Rightarrow> 0 \<le> r \<and> r \<le> hi | NaN \<Rightarrow> False)"

definition wholeInRange :: "rat \<Rightarrow> jsnum \<Rightarrow> bool" where
  "wholeInRange hi x =
     (case x of Fin r \<Rightarrow> of_int \<lfloor>r\<rfloor> = r \<and> 0 \<le> r \<and> r \<le> hi | NaN \<Rightarrow> False)"

text \<open>A criterion result with a given name, score, maximal score and percentage.\<close>

definition criterion :: "string \<Rightarrow> rat \<Rightarrow> rat \<Rightarrow> rat \<Rightarrow> CriteriaScore" where
  "criterion n s m p =
     \<lparr>name = n, score = Fin s, maxScore = Fin m, percentage = Fin p, feedback = [],
      suggestions = []\<rparr>"

text \<open>Seven results with the percentages 90, 10, 20, 30, 95, 85, 88.\<close>

definition sampleCriteria :: "CriteriaScore list" where
  "sampleCriteria =
     [criterion ''Schema & Types'' 18 20 90,
      criterion ''Descriptions & Documentation'' 2 20 10,
      criterion ''Paths & Operations'' 3 15 20,
      criterion ''Response Codes'' 5 15 30,
      criterion ''Examples & Samples'' 10 10 95,
      criterion ''Security'' 9 10 85,
      criterion ''Best Practices'' 9 10 88]"

text \<open>Seven results of which one, at 55, is below 60 and none is below 50.\<close>

definition nearMissCriteria :: "CriteriaScore list" where
  "nearMissCriteria =
     [criterion ''Schema & Types'' 18 20 90,
      criterion ''Descriptions & Documentation'' 18 20 90,
      criterion ''Paths & Operations'' 15 15 100,
      criterion ''Response Codes'' 15 15 100,
      criterion ''Examples & Samples'' 10 10 100,
      criterion ''Security'' 6 10 55,
      criterion ''Best Practices'' 9 10 90]"

definition objectSchema :: "string list option \<Rightarrow> SchemaOrRef" where
  "objectSchema props =
     Schema \<lparr>schema_type = Some ''object'', schema_properties = props,
             schema_additionalProperties = None\<rparr>"

definition noComponents :: Components where
  "noComponents =
     \<lparr>comp_schemas = None, comp_securitySchemes = None, comp_responses = None,
      comp_parameters = None, comp_examples = None, comp_requestBodies = None,
      comp_headers = None\<rparr>"

text \<open>One named schema, \<open>{type: object, properties: {}}\<close>.\<close>

definition emptyPropertiesDocument :: Document where
  "emptyPropertiesDocument =
     minimalDocument\<lparr>doc_components :=
       Some (noComponents\<lparr>comp_schemas := Some [(''Pet'', objectSchema (Some []))]\<rparr>)\<rparr>"

text \<open>Two named schemas of type \<open>object\<close> with properties.\<close>

definition typedSchemasDocument :: Document where
  "typedSchemasDocument =
     minimalDocument\<lparr>doc_components :=
       Some (noComponents\<lparr>comp_schemas :=
         Some [(''Pet'', objectSchema (Some [''id'', ''name''])),
               (''Owner'', objectSchema (Some [''name'']))]\<rparr>)\<rparr>"


definition jsonSchemaMedia :: MediaType where
  "jsonSchemaMedia =
     \<lparr>mt_schema = Some (SchemaRef ''#/components/schemas/Pet''), mt_example = None,
      mt_examples = None\<rparr>"

text \<open>
  One operation whose request body declares three media types, each with a schema.
\<close>

definition manyMediaTypesDocument :: Document where
  "manyMediaTypesDocument =
     minimalDocument\<lparr>doc_paths :=
       Some [(''/pets'',
              Some (noOperations\<lparr>pi_post := Some (plainOperation\<lparr>op_requestBody :=
                Some (RequestBodyObject
                  [(''application/json'', jsonSchemaMedia),
                   (''application/xml'', jsonSchemaMedia),
                   (''text/plain'', jsonSchemaMedia)])\<rparr>)\<rparr>))]\<rparr>"

section \<open>Every score is in its range\<close>

lemma count_le: "count P xs \<le> length xs"
  by (simp add: count_def)

lemma fst_award: "fst (award x t) = js_add (fst t) x"
  by (cases t) (simp add: award_def)

lemma fst_finding: "fst (finding x t) = fst t"
  by (cases t) (simp add: finding_def)

lemma fst_suggest: "fst (suggest x t) = fst t"
  by (cases t) (simp add: suggest_def)

lemma fst_if: "fst (if c then x else y) = (if c then fst x else fst y)"
  by simp

lemmas fst_tally = fst_award fst_finding fst_suggest fst_if

lemma inRangeE: "inRange hi x \<Longrightarrow> (\<And>r. x = Fin r \<Longrightarrow> 0 \<le> r \<Longrightarrow> r \<le> hi \<Longrightarrow> P) \<Longrightarrow> P"
  by (cases x) (simp_all add: inRange_def)

lemma inRange_Fin: "inRange hi (Fin r) = (0 \<le> r \<and> r \<le> hi)"
  by (simp add: inRange_def)

lemma inRange_share:
  assumes "part \<le> whole" and "0 < whole" and "0 \<le> points"
  shows "inRange points (share part whole points)"
proof -
  have w: "(of_nat whole :: rat) > 0" using assms(2) by simp
  have "(of_nat part :: rat) \<le> of_nat whole" using assms(1) by simp
  then have q: "(of_nat part :: rat) / of_nat whole \<le> 1" using w by (simp add: divide_le_eq)
  have q0: "0 \<le> (of_nat part :: rat) / of_nat whole" by simp
  have "(of_nat part :: rat) / of_nat whole * points \<le> 1 * points"
    using q assms(3) by (rule mult_right_mono)
  moreover have "0 \<le> (of_nat part :: rat) / of_nat whole * points"
    using q0 assms(3) by (rule mult_nonneg_nonneg)
  ultimately show ?thesis
    using assms(2) by (simp add: share_def js_num_def inRange_def)
qed

lemma inRange_round:
  assumes "inRange (of_int m) x"
  shows "wholeInRange (of_int m) (js_round x)"
proof -
  from assms obtain r where x: "x = Fin r" and r0: "0 \<le> r" and rm: "r \<le> of_int m"
    by (rule inRangeE)
  have "(0::int) \<le> \<lfloor>r + 1 / 2\<rfloor>" using r0 by (simp add: le_floor_iff)
  moreover have "\<lfloor>r + 1 / 2\<rfloor> \<le> m"
  proof -
    have "r + 1 / 2 < of_int (m + 1)" using rm by simp
    then have "\<lfloor>r + 1 / 2\<rfloor> < m + 1" by (simp only: floor_less_iff)
    then show ?thesis by simp
  qed
  ultimately show ?thesis
    using x by (simp add: wholeInRange_def)
qed

lemma properlyTypedSchemas_le: "properlyTypedSchemas d \<le> length (schemasOf d)"
  using count_le [of properlyTyped "map snd (schemasOf d)"]
  by (simp add: properlyTypedSchemas_def)

lemma properlyTypedTerm_range: "inRange 10 (properlyTypedTerm d)"
proof -
  have le: "properlyTypedSchemas d \<le> max (length (schemasOf d)) 1"
    using properlyTypedSchemas_le [of d] by simp
  have "inRange 10 (share (properlyTypedSchemas d) (max (length (schemasOf d)) 1) 10)"
    by (rule inRange_share [OF le]) simp_all
  then obtain r where r: "share (properlyTypedSchemas d) (max (length (schemasOf d)) 1) 10 = Fin r"
    and "0 \<le> r" "r \<le> 10" by (rule inRangeE)
  then show ?thesis
    by (simp add: properlyTypedTerm_def share_def inRange_def)
qed

lemma schemaUsageTerm_range:
  assumes "length (operations5 d) > 0"
  shows "inRange 5 (schemaUsageTerm d)"
proof -
  have "(of_nat (length (operations5 d)) :: rat) * 2 > 0" using assms by simp
  moreover have "0 \<le> (of_nat (operationsWithSchemas d) :: rat)" by simp
  ultimately have "0 \<le> (of_nat (operationsWithSchemas d) :: rat) / (of_nat (length (operations5 d)) * 2) * 5"
    by simp
  then show ?thesis
    using assms
    by (simp add: schemaUsageTerm_def schemaUsageRatio_def js_num_def inRange_def)
qed

lemma schema_tally_range: "inRange 20 (fst (scoreSchemaAndTypes_tally d))"
proof -
  obtain a where a: "properlyTypedTerm d = Fin a" "0 \<le> a" "a \<le> 10"
    using properlyTypedTerm_range [of d] by (rule inRangeE)
  show ?thesis
  proof (cases "length (operations5 d) > 0")
    case True
    obtain b where b: "schemaUsageTerm d = Fin b" "0 \<le> b" "b \<le> 5"
      using schemaUsageTerm_range [OF True] by (rule inRangeE)
    show ?thesis
      using True a b
      by (simp add: scoreSchemaAndTypes_tally_def Let_def fst_tally inRange_def)
  next
    case False
    then show ?thesis
      using a
      by (simp add: scoreSchemaAndTypes_tally_def Let_def fst_tally inRange_def)
  qed
qed


lemma share_eq:
  "0 < whole \<Longrightarrow> share part whole points = Fin (of_nat part / of_nat whole * points)"
  by (simp add: share_def js_num_def)

lemma ratio_bounds:
  assumes "part \<le> whole" and "0 \<le> (points :: rat)"
  shows "0 \<le> of_nat part / of_nat whole * points"
    and "of_nat part / of_nat whole * points \<le> points"
proof -
  have q0: "0 \<le> (of_nat part :: rat) / of_nat whole" by simp
  have q1: "(of_nat part :: rat) / of_nat whole \<le> 1"
  proof (cases "whole = 0")
    case True
    then show ?thesis by simp
  next
    case False
    then have "(of_nat whole :: rat) > 0" by simp
    moreover have "(of_nat part :: rat) \<le> of_nat whole" using assms(1) by simp
    ultimately show ?thesis by (simp add: divide_le_eq)
  qed
  show "0 \<le> of_nat part / of_nat whole * points"
    using q0 assms(2) by (rule mult_nonneg_nonneg)
  have "(of_nat part :: rat) / of_nat whole * points \<le> 1 * points"
    using q1 assms(2) by (rule mult_right_mono)
  then show "of_nat part / of_nat whole * points \<le> points" by simp
qed

lemma length_map_filter_le: "length (List.map_filter f xs) \<le> length xs"
  by (simp add: List.map_filter_def)

lemma pathItems_le: "length (pathItems d) \<le> totalPaths d"
  by (simp add: pathItems_def totalPaths_def length_map_filter_le split: option.split)

lemma pathsWithDescriptions_le: "pathsWithDescriptions d \<le> totalPaths d"
  using count_le [of "\<lambda>pathItem. truthy_string (pi_description pathItem)" "pathItems d"]
    pathItems_le [of d]
  by (simp add: pathsWithDescriptions_def)

lemma descriptions_tally_range: "inRange 20 (fst (scoreDescriptions_tally d))"
proof -
  have ops: "operationsWithDescriptions d \<le> length (operations8 d)"
    by (simp add: operationsWithDescriptions_def count_le)
  have pars: "parametersWithDescriptions d \<le> totalParameters d"
    by (simp add: parametersWithDescriptions_def totalParameters_def count_le)
  have resps: "responsesWithDescriptions d \<le> totalResponses8 d"
    by (simp add: responsesWithDescriptions_def totalResponses8_def count_le)
  note b = ratio_bounds [OF ops, of 8] ratio_bounds [OF pars, of 4]
    ratio_bounds [OF resps, of 3] ratio_bounds [OF pathsWithDescriptions_le [of d], of 2]
  show ?thesis
    using b
    by (simp add: scoreDescriptions_tally_def Let_def fst_tally share_eq inRange_def)
qed

lemma wellNamedPaths_le: "wellNamedPaths ps \<le> length ps"
  by (simp add: wellNamedPaths_def count_le)

lemma paths_tally_range:
  assumes "ps \<noteq> []"
  shows "inRange 15 (fst (scorePathsAndOperations_tally ps))"
proof -
  have pos: "0 < length ps" using assms by simp
  note b = ratio_bounds [OF wellNamedPaths_le [of ps], of 7]
  show ?thesis
    using b pos
    by (simp add: scorePathsAndOperations_tally_def Let_def fst_tally share_eq inRange_def
        js_num_def min_def)
qed

lemma responseCodes_tally_range: "inRange 15 (fst (scoreResponseCodes_tally d))"
proof -
  have s: "operationsWithSuccess d \<le> length (operations5 d)"
    by (simp add: operationsWithSuccess_def count_le)
  have e: "operationsWithErrors d \<le> length (operations5 d)"
    by (simp add: operationsWithErrors_def count_le)
  have m: "operationsWithMultipleResponses d \<le> length (operations5 d)"
    by (simp add: operationsWithMultipleResponses_def count_le)
  note b = ratio_bounds [OF s, of 6] ratio_bounds [OF e, of 6] ratio_bounds [OF m, of 3]
  show ?thesis
    using b
    by (simp add: scoreResponseCodes_tally_def Let_def fst_tally share_eq inRange_def)
qed

lemma count_mono: "(\<And>x. P x \<Longrightarrow> Q x) \<Longrightarrow> count P xs \<le> count Q xs"
  by (induction xs) (auto simp: count_def)

lemma examples_tally_range: "inRange 10 (fst (scoreExamples_tally d))"
proof -
  have r: "operationsWithRequestExamples d \<le> totalOperationsWithBodies d"
    unfolding operationsWithRequestExamples_def totalOperationsWithBodies_def
    by (rule count_mono) (auto split: option.splits RequestBody.splits)
  have "\<And>x. hasResponseExample x \<Longrightarrow> hasContent x"
  proof -
    fix x show "hasResponseExample x \<Longrightarrow> hasContent x"
      by (cases x rule: hasContent.cases) simp_all
  qed
  then have p: "operationsWithResponseExamples d \<le> totalResponses d"
    unfolding operationsWithResponseExamples_def totalResponses_def
    by (rule count_mono)
  note b = ratio_bounds [OF r, of 5] ratio_bounds [OF p, of 5]
  show ?thesis
    using b
    by (simp add: scoreExamples_tally_def Let_def fst_tally share_eq inRange_def)
qed

lemma security_tally_range: "inRange 10 (fst (scoreSecurity_tally d))"
proof -
  have s: "operationsWithSecurity d \<le> length (operations5 d)"
    by (simp add: operationsWithSecurity_def count_le)
  note b = ratio_bounds [OF s, of 2]
  show ?thesis
    using b
    by (simp add: scoreSecurity_tally_def Let_def fst_tally share_eq inRange_def js_num_def
        min_def)
qed

lemma bestPractices_tally_range: "inRange 10 (fst (scoreBestPractices_tally d))"
proof -
  have s: "operationsWithTags d \<le> length (operations5 d)"
    by (simp add: operationsWithTags_def count_le)
  note b = ratio_bounds [OF s, of 3]
  show ?thesis
    using b
    by (simp add: scoreBestPractices_tally_def Let_def fst_tally share_eq inRange_def)
qed


lemma result_sel:
  "name (result n m t) = n" "score (result n m t) = js_round (fst t)"
  "maxScore (result n m t) = m"
  "percentage (result n m t) = js_round (js_mul (js_div (fst t) m) (Fin 100))"
  "feedback (result n m t) = fst (snd t)" "suggestions (result n m t) = snd (snd t)"
  by (cases t; simp add: result_def)+

lemma floor_half: "\<lfloor>(1 :: rat) / 2\<rfloor> = 0"
  by code_simp

lemma js_round_0: "js_round (Fin 0) = Fin 0"
  by (simp add: floor_half)

lemma wholeInRange_Fin0: "0 \<le> hi \<Longrightarrow> wholeInRange hi (Fin 0)"
  by (simp add: wholeInRange_def)

lemma percentage_range:
  assumes "inRange m s" and "0 < m"
  shows "wholeInRange 100 (js_round (js_mul (js_div s (Fin m)) (Fin 100)))"
proof -
  from assms(1) obtain r where s: "s = Fin r" and r0: "0 \<le> r" and rm: "r \<le> m"
    by (rule inRangeE)
  have q1: "r / m \<le> 1" using rm assms(2) by (simp add: divide_le_eq)
  have q0: "0 \<le> r / m" using r0 assms(2) by simp
  have "r / m * 100 \<le> 1 * 100" using q1 by (rule mult_right_mono) simp
  moreover have "0 \<le> r / m * 100" using q0 by (rule mult_nonneg_nonneg) simp
  ultimately have "inRange (of_int 100) (Fin (r / m * 100))"
    by (simp add: inRange_def)
  then have "wholeInRange (of_int 100) (js_round (Fin (r / m * 100)))"
    by (rule inRange_round)
  then show ?thesis using s assms(2) by simp
qed

lemma score_range:
  assumes "inRange (of_int m) (fst t)"
  shows "wholeInRange (of_int m) (score (result n (Fin (of_int m)) t))"
  using inRange_round [OF assms] by (simp add: result_sel)

lemma wholeInRange_add:
  assumes "wholeInRange a x" and "wholeInRange b y"
  shows "wholeInRange (a + b) (js_add x y)"
proof -
  from assms(1) obtain r where x: "x = Fin r" and r: "of_int \<lfloor>r\<rfloor> = r" "0 \<le> r" "r \<le> a"
    by (cases x) (simp_all add: wholeInRange_def)
  from assms(2) obtain q where y: "y = Fin q" and q: "of_int \<lfloor>q\<rfloor> = q" "0 \<le> q" "q \<le> b"
    by (cases y) (simp_all add: wholeInRange_def)
  have "of_int \<lfloor>r\<rfloor> + of_int \<lfloor>q\<rfloor> = r + q" using r(1) q(1) by (simp only:)
  then have "r + q = of_int (\<lfloor>r\<rfloor> + \<lfloor>q\<rfloor>)" by (simp only: of_int_add)
  then have "of_int \<lfloor>r + q\<rfloor> = r + q" by (metis floor_of_int)
  then show ?thesis using x y r(2,3) q(2,3) by (simp add: wholeInRange_def)
qed

lemma schema_result:
  "wholeInRange 20 (score (scoreSchemaAndTypes d)) \<and>
   wholeInRange 100 (percentage (scoreSchemaAndTypes d))"
  using score_range [of 20 "scoreSchemaAndTypes_tally d"] schema_tally_range [of d]
    percentage_range [OF schema_tally_range [of d]]
  by (simp add: scoreSchemaAndTypes_def result_sel)

lemma descriptions_result:
  "wholeInRange 20 (score (scoreDescriptions d)) \<and>
   wholeInRange 100 (percentage (scoreDescriptions d))"
  using score_range [of 20 "scoreDescriptions_tally d"] descriptions_tally_range [of d]
    percentage_range [OF descriptions_tally_range [of d]]
  by (simp add: scoreDescriptions_def result_sel)

lemma paths_result:
  assumes "doc_paths d \<noteq> Some []"
  shows "wholeInRange 15 (score (scorePathsAndOperations d)) \<and>
         wholeInRange 100 (percentage (scorePathsAndOperations d))"
proof (cases "doc_paths d")
  case None
  then show ?thesis by (simp add: scorePathsAndOperations_def wholeInRange_def)
next
  case (Some ps)
  with assms have ne: "ps \<noteq> []" by simp
  show ?thesis
    using score_range [of 15 "scorePathsAndOperations_tally ps"] paths_tally_range [OF ne]
      percentage_range [OF paths_tally_range [OF ne]] Some
    by (simp add: scorePathsAndOperations_def result_sel)
qed

lemma responseCodes_result:
  "wholeInRange 15 (score (scoreResponseCodes d)) \<and>
   wholeInRange 100 (percentage (scoreResponseCodes d))"
  using score_range [of 15 "scoreResponseCodes_tally d"] responseCodes_tally_range [of d]
    percentage_range [OF responseCodes_tally_range [of d]]
  by (cases "doc_paths d") (simp_all add: scoreResponseCodes_def result_sel wholeInRange_def)

lemma examples_result:
  "wholeInRange 10 (score (scoreExamples d)) \<and>
   wholeInRange 100 (percentage (scoreExamples d))"
  using score_range [of 10 "scoreExamples_tally d"] examples_tally_range [of d]
    percentage_range [OF examples_tally_range [of d]]
  by (cases "doc_paths d") (simp_all add: scoreExamples_def result_sel wholeInRange_def)

lemma security_result:
  "wholeInRange 10 (score (scoreSecurity d)) \<and>
   wholeInRange 100 (percentage (scoreSecurity d))"
  using score_range [of 10 "scoreSecurity_tally d"] security_tally_range [of d]
    percentage_range [OF security_tally_range [of d]]
  by (simp add: scoreSecurity_def result_sel)

lemma bestPractices_result:
  "wholeInRange 10 (score (scoreBestPractices d)) \<and>
   wholeInRange 100 (percentage (scoreBestPractices d))"
  using score_range [of 10 "scoreBestPractices_tally d"] bestPractices_tally_range [of d]
    percentage_range [OF bestPractices_tally_range [of d]]
  by (simp add: scoreBestPractices_def result_sel)

section \<open>The terms of the scores\<close>


lemma schema_tally_eq:
  "fst (scoreSchemaAndTypes_tally d) =
     Fin ((if length (schemasOf d) > 0 then 5 else 0) +
          (if properlyTypedSchemas d > 0
           then min 10 (of_nat (properlyTypedSchemas d) / of_nat (max (length (schemasOf d)) 1) * 10)
           else 0) +
          (if length (operations5 d) > 0
           then min 5 (of_nat (operationsWithSchemas d) / (of_nat (length (operations5 d)) * 2) * 5)
           else 0))"
  by (simp add: scoreSchemaAndTypes_tally_def Let_def fst_tally properlyTypedTerm_def
      schemaUsageTerm_def schemaUsageRatio_def js_num_def)

lemma all_properlyTyped:
  assumes "list_all properlyTyped (map snd (schemasOf d))"
  shows "properlyTypedSchemas d = length (schemasOf d)"
proof -
  have "filter properlyTyped (map snd (schemasOf d)) = map snd (schemasOf d)"
    using assms by (simp add: list_all_iff)
  then show ?thesis by (simp add: properlyTypedSchemas_def count_def)
qed




lemma security_tally_eq:
  "fst (scoreSecurity_tally d) =
     Fin ((if schemeCount d > 0 then min 5 (of_nat (schemeCount d) * 2) else 0) +
          (if globalSecurity d then 3 else 0) +
          (if length (operations5 d) > 0 \<and> operationsWithSecurity d > 0
           then of_nat (operationsWithSecurity d) / of_nat (length (operations5 d)) * 2
           else 0))"
  by (simp add: scoreSecurity_tally_def Let_def fst_tally share_eq js_num_def)

lemma count_pos: "x \<in> set xs \<Longrightarrow> P x \<Longrightarrow> 0 < count P xs"
  by (induction xs) (auto simp: count_def)

section \<open>The weak areas\<close>

lemma weakAreas_sorted:
  "\<exists>srt. mset srt = mset (filter (below T) cs) \<and> sorted (map percentageValue srt) \<and>
         list_all (\<lambda>c. percentage c = Fin (percentageValue c)) srt \<and>
         weakAreas T cs = take 3 srt"
proof -
  let ?srt = "sort_key percentageValue (filter (below T) cs)"
  have "set ?srt \<subseteq> {c. below T c}" by auto
  moreover have "\<And>c. below T c \<Longrightarrow> percentage c = Fin (percentageValue c)"
  proof -
    fix c assume "below T c"
    then show "percentage c = Fin (percentageValue c)"
      by (cases "percentage c") (simp_all add: below_def)
  qed
  ultimately have "list_all (\<lambda>c. percentage c = Fin (percentageValue c)) ?srt"
    by (auto simp: list_all_iff)
  moreover have "weakAreas T cs = take 3 ?srt"
    by (simp add: weakAreas_def)
  ultimately show ?thesis
    by (intro exI [of _ ?srt]) simp
qed

lemma weakAreas_empty: "(weakAreas T cs = []) = (\<not> list_ex (below T) cs)"
proof -
  have "(weakAreas T cs = []) = (sort_key percentageValue (filter (below T) cs) = [])"
    by (simp add: weakAreas_def)
  also have "\<dots> = (filter (below T) cs = [])"
    by (metis length_sort length_0_conv)
  also have "\<dots> = (\<not> list_ex (below T) cs)"
    by (simp add: filter_empty_conv list_ex_iff)
  finally show ?thesis .
qed

section \<open>A document whose paths mapping is empty\<close>

text \<open>
  When \<open>document.paths\<close> is absent, each of the three evaluators returns at once
  with score 0 and the one finding that no paths are defined.
\<close>

lemma absent_paths_short_circuit:
  assumes "doc_paths d = None"
  shows "score (scorePathsAndOperations d) = Fin 0 \<and>
         feedback (scorePathsAndOperations d) = [''No paths defined''] \<and>
         score (scoreResponseCodes d) = Fin 0 \<and>
         feedback (scoreResponseCodes d) = [''No paths defined''] \<and>
         score (scoreExamples d) = Fin 0 \<and>
         feedback (scoreExamples d) = [''No paths defined'']"
  using assms
  by (simp add: scorePathsAndOperations_def scoreResponseCodes_def scoreExamples_def)

text \<open>
  C1. The three evaluators return early only when \<open>document.paths\<close> is falsy. An
  empty mapping is an object and truthy, so for \<open>paths: {}\<close> they run to their end:
  Paths and Operations divides zero well-named paths by zero paths, its score is
  \<open>NaN\<close> and its findings do not say that no paths are defined; Response Codes and
  Examples and Samples score 0 with no finding at all.
\<close>

theorem empty_paths_not_short_circuited:
  "doc_paths emptyPathsDocument = Some [] \<and>
   score (scorePathsAndOperations emptyPathsDocument) = NaN \<and>
   feedback (scorePathsAndOperations emptyPathsDocument) =
     [''0/0 paths follow RESTful naming conventions'',
      ''No overlapping or redundant paths detected''] \<and>
   score (scoreResponseCodes emptyPathsDocument) = Fin 0 \<and>
   feedback (scoreResponseCodes emptyPathsDocument) = [] \<and>
   score (scoreExamples emptyPathsDocument) = Fin 0 \<and>
   feedback (scoreExamples emptyPathsDocument) = []"
  by code_simp

text \<open>
  C2. For the document with \<open>paths: {}\<close> the score of Paths and Operations is \<open>NaN\<close>,
  and so is the total: it is not a number of the range from 0 to 100.
\<close>

theorem empty_paths_total_is_NaN:
  "map score (evaluate emptyPathsDocument) = [Fin 0, Fin 0, NaN, Fin 0, Fin 0, Fin 0, Fin 0] \<and>
   totalScore (scoreSpec emptyPathsDocument) = NaN \<and>
   totalScore (scoreSpec2 emptyPathsDocument) = NaN \<and>
   \<not> js_ge (totalScore (scoreSpec emptyPathsDocument)) (Fin 0) \<and>
   grade (scoreSpec emptyPathsDocument) = ''F''"
  by code_simp

section \<open>The total score\<close>

text \<open>
  For every document whose paths mapping is absent or not empty, the total score of
  either copy of the scorer is the sum of the seven scores, each score is a whole
  number from 0 to the maximal score of its criterion, and the total is a whole number
  from 0 to 100.
\<close>

theorem total_score_range:
  assumes "doc_paths d \<noteq> Some []"
  shows "totalScore (scoreSpec d) = sumScores (evaluate d) \<and>
         totalScore (scoreSpec2 d) = sumScores (evaluate d) \<and>
         list_all2 (\<lambda>c m. maxScore c = Fin m \<and> wholeInRange m (score c)) (evaluate d)
           [20, 20, 15, 15, 10, 10, 10] \<and>
         wholeInRange 100 (sumScores (evaluate d))"
proof -
  note r = schema_result [of d] descriptions_result [of d] paths_result [OF assms]
    responseCodes_result [of d] examples_result [of d] security_result [of d]
    bestPractices_result [of d]
  have "wholeInRange (0 + 20 + 20 + 15 + 15 + 10 + 10 + 10) (sumScores (evaluate d))"
    unfolding sumScores_def evaluate_def foldl.simps
    apply (intro wholeInRange_add wholeInRange_Fin0 r [THEN conjunct1])
    apply simp
    done
  then have "wholeInRange 100 (sumScores (evaluate d))" by simp
  moreover have "map maxScore (evaluate d) = [Fin 20, Fin 20, Fin 15, Fin 15, Fin 10, Fin 10, Fin 10]"
    by (cases "doc_paths d")
      (simp_all add: evaluate_def scoreSchemaAndTypes_def
        scoreDescriptions_def scorePathsAndOperations_def scoreResponseCodes_def
        scoreExamples_def scoreSecurity_def scoreBestPractices_def result_sel)
  ultimately show ?thesis
    using r by (simp add: scoreSpec_def scoreSpec2_def Let_def evaluate_def)
qed

theorem total_score_range_witness:
  "doc_paths minimalDocument \<noteq> Some [] \<and>
   totalScore (scoreSpec minimalDocument) = sumScores (evaluate minimalDocument) \<and>
   wholeInRange 100 (sumScores (evaluate minimalDocument))"
proof -
  have h: "doc_paths minimalDocument \<noteq> Some []"
    by (simp add: minimalDocument_def)
  show ?thesis
    using h total_score_range [OF h] by simp
qed

section \<open>The percentage\<close>




section \<open>The weak-area line of the overall feedback\<close>

text \<open>
  C4, amended. The cutoff is 60 in the first copy of \<open>generateOverallFeedback\<close> and
  50 in the second. With the cutoff of its copy: if some criterion has a percentage
  below the cutoff, the overall feedback is the narrative line followed by exactly one
  more line, \<open>Focus on improving:\<close> and the names, joined by a comma and a space, of
  the first three (or fewer) of the criteria below the cutoff arranged by ascending
  percentage; if no criterion is below the cutoff, the overall feedback is the
  narrative line alone. For the percentages 90, 10, 20, 30, 95, 85, 88 both copies
  name the criteria at 10, 20 and 30, in this order.
\<close>

theorem weak_area_line:
  "(list_ex (below 60) cs \<longrightarrow>
      (\<exists>line srt. mset srt = mset (filter (below 60) cs) \<and>
         sorted (map percentageValue srt) \<and>
         list_all (\<lambda>c. percentage c = Fin (percentageValue c)) srt \<and>
         generateOverallFeedback t cs =
           [line, ''Focus on improving: '' @ join '', '' (map name (take 3 srt))])) \<and>
   (\<not> list_ex (below 60) cs \<longrightarrow> (\<exists>line. generateOverallFeedback t cs = [line])) \<and>
   (list_ex (below 50) cs \<longrightarrow>
      (\<exists>line srt. mset srt = mset (filter (below 50) cs) \<and>
         sorted (map percentageValue srt) \<and>
         list_all (\<lambda>c. percentage c = Fin (percentageValue c)) srt \<and>
         generateOverallFeedback2 t cs =
           [line, ''Focus on improving: '' @ join '', '' (map name (take 3 srt))])) \<and>
   (\<not> list_ex (below 50) cs \<longrightarrow> (\<exists>line. generateOverallFeedback2 t cs = [line])) \<and>
   map percentage sampleCriteria = [Fin 90, Fin 10, Fin 20, Fin 30, Fin 95, Fin 85, Fin 88] \<and>
   generateOverallFeedback t sampleCriteria ! 1 =
     ''Focus on improving: Descriptions & Documentation, Paths & Operations, Response Codes'' \<and>
   generateOverallFeedback2 t sampleCriteria ! 1 =
     ''Focus on improving: Descriptions & Documentation, Paths & Operations, Response Codes''"
proof -
  have a: "list_ex (below T) cs \<longrightarrow>
      (\<exists>srt. mset srt = mset (filter (below T) cs) \<and>
         sorted (map percentageValue srt) \<and>
         list_all (\<lambda>c. percentage c = Fin (percentageValue c)) srt \<and>
         weakAreaLine T cs = [''Focus on improving: '' @ join '', '' (map name (take 3 srt))])"
    for T
    using weakAreas_sorted [of T cs] weakAreas_empty [of T cs]
    by (auto simp: weakAreaLine_def)
  have b: "\<not> list_ex (below T) cs \<longrightarrow> weakAreaLine T cs = []" for T
    using weakAreas_empty [of T cs] by (simp add: weakAreaLine_def)
  have c: "map percentage sampleCriteria = [Fin 90, Fin 10, Fin 20, Fin 30, Fin 95, Fin 85, Fin 88]"
    by (simp add: sampleCriteria_def criterion_def)
  have d: "weakAreaLine 60 sampleCriteria =
     [''Focus on improving: Descriptions & Documentation, Paths & Operations, Response Codes'']"
    by code_simp
  have e: "weakAreaLine 50 sampleCriteria =
     [''Focus on improving: Descriptions & Documentation, Paths & Operations, Response Codes'']"
    by code_simp
  show ?thesis
    using a [of 60] b [of 60] a [of 50] b [of 50] c d e
    by (simp add: generateOverallFeedback_def generateOverallFeedback2_def)
qed

theorem weak_area_line_witness:
  "list_ex (below 60) sampleCriteria \<and> list_ex (below 50) sampleCriteria \<and>
   \<not> list_ex (below 50) nearMissCriteria \<and>
   length (generateOverallFeedback (Fin 64) sampleCriteria) = 2 \<and>
   length (generateOverallFeedback2 (Fin 64) sampleCriteria) = 2 \<and>
   length (generateOverallFeedback2 (Fin 91) nearMissCriteria) = 1"
proof -
  have h: "list_ex (below 60) sampleCriteria" "list_ex (below 50) sampleCriteria"
    "\<not> list_ex (below 50) nearMissCriteria"
    by (simp_all add: sampleCriteria_def nearMissCriteria_def criterion_def below_def)
  show ?thesis
    using h weak_area_line [of sampleCriteria "Fin 64"]
      weak_area_line [of nearMissCriteria "Fin 91"]
    by auto
qed

text \<open>
  Counterexample to C4 as stated: with one of seven criteria at 55 and none below 50,
  the second copy produces no weak-area line, although a percentage is below 60; the
  first copy names that criterion.
\<close>

theorem weak_area_cutoff_50:
  "length nearMissCriteria = 7 \<and>
   list_ex (below 60) nearMissCriteria \<and>
   generateOverallFeedback2 (Fin 91) nearMissCriteria =
     [''Excellent! Your OpenAPI specification follows industry best practices.''] \<and>
   generateOverallFeedback (Fin 91) nearMissCriteria =
     [''Excellent! Your OpenAPI specification follows industry best practices.'',
      ''Focus on improving: Security'']"
  by code_simp

section \<open>The grade\<close>

text \<open>
  C5. The grade of a scoring result is \<open>calculateGrade\<close> of its total score and of
  nothing else. For a total \<open>s\<close> the grade is A from 80, B from 70, C from 60, D from
  50 and F below (and F for \<open>NaN\<close>); a larger total never gets a lower grade; the
  totals 80, 79, 70, 69, 60, 59, 50, 49 get A, B, B, C, C, D, D, F.
\<close>

theorem grade_bands:
  "grade (scoreSpec d) = calculateGrade (totalScore (scoreSpec d)) \<and>
   grade (scoreSpec2 d) = calculateGrade (totalScore (scoreSpec2 d)) \<and>
   calculateGrade (Fin s) =
     (if s \<ge> 80 then ''A'' else if s \<ge> 70 then ''B'' else if s \<ge> 60 then ''C''
      else if s \<ge> 50 then ''D'' else ''F'') \<and>
   calculateGrade NaN = ''F'' \<and>
   (s \<le> s' \<longrightarrow> gradeRank (calculateGrade (Fin s)) \<le> gradeRank (calculateGrade (Fin s'))) \<and>
   calculateGrade (Fin 80) = ''A'' \<and> calculateGrade (Fin 79) = ''B'' \<and>
   calculateGrade (Fin 70) = ''B'' \<and> calculateGrade (Fin 69) = ''C'' \<and>
   calculateGrade (Fin 60) = ''C'' \<and> calculateGrade (Fin 59) = ''D'' \<and>
   calculateGrade (Fin 50) = ''D'' \<and> calculateGrade (Fin 49) = ''F''"
  by (simp add: scoreSpec_def scoreSpec2_def Let_def calculateGrade_def gradeRank_def)

theorem grade_bands_witness:
  "(49 :: rat) \<le> 80 \<and>
   gradeRank (calculateGrade (Fin 49)) \<le> gradeRank (calculateGrade (Fin 80)) \<and>
   gradeRank (calculateGrade (Fin 49)) = 0 \<and> gradeRank (calculateGrade (Fin 80)) = 4"
  using grade_bands [of minimalDocument 49 80]
  by (simp add: gradeRank_def)

section \<open>Properly typed schemas\<close>

text \<open>
  C6, amended. A named schema counts as properly typed exactly when it has the type
  \<open>object\<close> and a \<open>properties\<close> map, which may be empty. The score before rounding
  is 5 if there is a named schema, plus \<open>min(10, properlyTyped / max(schemaCount, 1) *
  10)\<close> if some schema is properly typed, plus the schema-usage term if there is an
  operation. If there is at least one named schema and all of them are properly typed,
  the second term is awarded and equals 10.
\<close>

theorem properly_typed_term:
  "properlyTyped s =
     (case s of
        SchemaRef r \<Rightarrow> False
      | Schema so \<Rightarrow> schema_type so = Some ''object'' \<and> schema_properties so \<noteq> None) \<and>
   properlyTypedSchemas d = length (filter properlyTyped (map snd (schemasOf d))) \<and>
   fst (scoreSchemaAndTypes_tally d) =
     Fin ((if length (schemasOf d) > 0 then 5 else 0) +
          (if properlyTypedSchemas d > 0
           then min 10 (of_nat (properlyTypedSchemas d) / of_nat (max (length (schemasOf d)) 1) * 10)
           else 0) +
          (if length (operations5 d) > 0
           then min 5 (of_nat (operationsWithSchemas d) / (of_nat (length (operations5 d)) * 2) * 5)
           else 0)) \<and>
   (length (schemasOf d) \<ge> 1 \<and> list_all properlyTyped (map snd (schemasOf d)) \<longrightarrow>
      properlyTypedSchemas d > 0 \<and>
      min 10 ((of_nat (properlyTypedSchemas d) :: rat) / of_nat (max (length (schemasOf d)) 1) * 10) = 10)"
proof -
  have a: "properlyTyped s =
     (case s of
        SchemaRef r \<Rightarrow> False
      | Schema so \<Rightarrow> schema_type so = Some ''object'' \<and> schema_properties so \<noteq> None)"
    by (cases s) (auto split: option.splits)
  have b: "properlyTypedSchemas d = length (filter properlyTyped (map snd (schemasOf d)))"
    by (simp add: properlyTypedSchemas_def count_def)
  have c: "length (schemasOf d) \<ge> 1 \<and> list_all properlyTyped (map snd (schemasOf d)) \<longrightarrow>
      properlyTypedSchemas d > 0 \<and>
      min 10 ((of_nat (properlyTypedSchemas d) :: rat) / of_nat (max (length (schemasOf d)) 1) * 10) = 10"
  proof
    assume h: "length (schemasOf d) \<ge> 1 \<and> list_all properlyTyped (map snd (schemasOf d))"
    then have e: "properlyTypedSchemas d = length (schemasOf d)"
      by (simp add: all_properlyTyped)
    have m: "max (length (schemasOf d)) 1 = length (schemasOf d)" using h by simp
    have nz: "(of_nat (length (schemasOf d)) :: rat) \<noteq> 0" using h by auto
    have q: "(of_nat (properlyTypedSchemas d) :: rat) / of_nat (max (length (schemasOf d)) 1) = 1"
      unfolding e m using nz by simp
    have p: "properlyTypedSchemas d > 0" using h e by (cases "schemasOf d") simp_all
    show "properlyTypedSchemas d > 0 \<and>
      min 10 ((of_nat (properlyTypedSchemas d) :: rat) / of_nat (max (length (schemasOf d)) 1) * 10) = 10"
      using p by (simp only: q) simp
  qed
  show ?thesis using a b c schema_tally_eq [of d] by blast
qed

theorem properly_typed_term_witness:
  "length (schemasOf typedSchemasDocument) \<ge> 1 \<and>
   list_all properlyTyped (map snd (schemasOf typedSchemasDocument)) \<and>
   properlyTypedSchemas typedSchemasDocument > 0 \<and>
   min 10 ((of_nat (properlyTypedSchemas typedSchemasDocument) :: rat) /
           of_nat (max (length (schemasOf typedSchemasDocument)) 1) * 10) = 10"
proof -
  have h: "length (schemasOf typedSchemasDocument) \<ge> 1 \<and>
     list_all properlyTyped (map snd (schemasOf typedSchemasDocument))"
    by (simp add: typedSchemasDocument_def schemasOf_def noComponents_def objectSchema_def
        minimalDocument_def)
  show ?thesis
    using h properly_typed_term [of "SchemaRef []" typedSchemasDocument] by blast
qed

text \<open>
  Counterexample to C6 as stated: a schema of type \<open>object\<close> whose \<open>properties\<close> map
  is empty counts as properly typed and earns the full term.
\<close>

theorem empty_properties_properly_typed:
  "schemasOf emptyPropertiesDocument =
     [(''Pet'', Schema \<lparr>schema_type = Some ''object'', schema_properties = Some [],
                       schema_additionalProperties = None\<rparr>)] \<and>
   properlyTypedSchemas emptyPropertiesDocument = 1 \<and>
   properlyTypedTerm emptyPropertiesDocument = Fin 10 \<and>
   score (scoreSchemaAndTypes emptyPropertiesDocument) = Fin 15"
  by code_simp

section \<open>The bonus for paths that do not overlap\<close>




section \<open>The minimal document\<close>

text \<open>
  C8. For the minimal document the Security criterion scores 0, Best Practices scores
  0 (so at most 2), Examples and Samples scores 0, the total is 19 and the grade is
  F (so D or F), with either copy of the scorer.
\<close>

theorem minimal_document_scores:
  "score (scoreSecurity minimalDocument) = Fin 0 \<and>
   score (scoreBestPractices minimalDocument) = Fin 0 \<and>
   js_ge (Fin 2) (score (scoreBestPractices minimalDocument)) \<and>
   score (scoreExamples minimalDocument) = Fin 0 \<and>
   totalScore (scoreSpec minimalDocument) = Fin 19 \<and>
   grade (scoreSpec minimalDocument) = ''F'' \<and>
   grade (scoreSpec2 minimalDocument) = ''F'' \<and>
   (grade (scoreSpec minimalDocument) = ''D'' \<or> grade (scoreSpec minimalDocument) = ''F'')"
  by code_simp

section \<open>The schema-usage term\<close>

text \<open>
  C9. When there is an operation, the schema-usage term is \<open>min(5, usages /
  (totalOperations * 2) * 5)\<close> and lies between 0 and 5; the score of Schema and
  Types before rounding is the sum of its three terms and lies between 0 and 20, and
  the rounded score is a whole number from 0 to 20. The usages can exceed twice the
  operations: an operation whose request body declares three media types with a schema
  has 3 usages, the ratio 3/2 and the term 5.
\<close>

theorem schema_usage_term_clamped:
  "(length (operations5 d) > 0 \<longrightarrow>
      schemaUsageTerm d =
        Fin (min 5 (of_nat (operationsWithSchemas d) / (of_nat (length (operations5 d)) * 2) * 5)) \<and>
      inRange 5 (schemaUsageTerm d)) \<and>
   fst (scoreSchemaAndTypes_tally d) =
     Fin ((if length (schemasOf d) > 0 then 5 else 0) +
          (if properlyTypedSchemas d > 0
           then min 10 (of_nat (properlyTypedSchemas d) / of_nat (max (length (schemasOf d)) 1) * 10)
           else 0) +
          (if length (operations5 d) > 0
           then min 5 (of_nat (operationsWithSchemas d) / (of_nat (length (operations5 d)) * 2) * 5)
           else 0)) \<and>
   inRange 20 (fst (scoreSchemaAndTypes_tally d)) \<and>
   wholeInRange 20 (score (scoreSchemaAndTypes d)) \<and>
   operationsWithSchemas manyMediaTypesDocument = 3 \<and>
   length (operations5 manyMediaTypesDocument) = 1 \<and>
   schemaUsageRatio manyMediaTypesDocument = Fin (3 / 2) \<and>
   schemaUsageTerm manyMediaTypesDocument = Fin 5"
proof -
  have a: "length (operations5 d) > 0 \<longrightarrow>
      schemaUsageTerm d =
        Fin (min 5 (of_nat (operationsWithSchemas d) / (of_nat (length (operations5 d)) * 2) * 5)) \<and>
      inRange 5 (schemaUsageTerm d)"
    using schemaUsageTerm_range [of d]
    by (simp add: schemaUsageTerm_def schemaUsageRatio_def js_num_def)
  have e: "operationsWithSchemas manyMediaTypesDocument = 3 \<and>
     length (operations5 manyMediaTypesDocument) = 1 \<and>
     schemaUsageRatio manyMediaTypesDocument = Fin (3 / 2) \<and>
     schemaUsageTerm manyMediaTypesDocument = Fin 5"
    by code_simp
  show ?thesis
    using a e schema_tally_eq [of d] schema_tally_range [of d] schema_result [of d]
    by blast
qed

theorem schema_usage_term_clamped_witness:
  "length (operations5 manyMediaTypesDocument) > 0 \<and>
   2 * length (operations5 manyMediaTypesDocument) < operationsWithSchemas manyMediaTypesDocument \<and>
   schemaUsageTerm manyMediaTypesDocument = Fin 5 \<and>
   inRange 5 (schemaUsageTerm manyMediaTypesDocument) \<and>
   wholeInRange 20 (score (scoreSchemaAndTypes manyMediaTypesDocument))"
proof -
  note t = schema_usage_term_clamped [of manyMediaTypesDocument]
  from t have n: "operationsWithSchemas manyMediaTypesDocument = 3"
    "length (operations5 manyMediaTypesDocument) = 1" by blast+
  have h: "length (operations5 manyMediaTypesDocument) > 0" by (simp add: n)
  have l: "2 * length (operations5 manyMediaTypesDocument) <
    operationsWithSchemas manyMediaTypesDocument" by (simp add: n)
  from t h have r: "inRange 5 (schemaUsageTerm manyMediaTypesDocument)" by blast
  from t have v: "schemaUsageTerm manyMediaTypesDocument = Fin 5"
    "wholeInRange 20 (score (scoreSchemaAndTypes manyMediaTypesDocument))" by blast+
  show ?thesis using h l r v by blast
qed

section \<open>Operations with a security field\<close>

text \<open>
  C10. An operation of the five methods whose \<open>security\<close> field is the empty list
  counts as an operation with security: the counter is the number of operations whose
  field is present, it is positive, and the score before rounding includes the term
  \<open>operationsWithSecurity / totalOperations * 2\<close>, which is positive.
\<close>

theorem empty_security_counts:
  assumes "operation \<in> set (operations5 d)" and "op_security operation = Some []"
  shows
    "hasSecurity operation \<and>
     operationsWithSecurity d = length (filter (\<lambda>x. op_security x \<noteq> None) (operations5 d)) \<and>
     0 < operationsWithSecurity d \<and>
     operationsWithSecurity d \<le> length (operations5 d) \<and>
     fst (scoreSecurity_tally d) =
       Fin ((if schemeCount d > 0 then min 5 (of_nat (schemeCount d) * 2) else 0) +
            (if globalSecurity d then 3 else 0) +
            of_nat (operationsWithSecurity d) / of_nat (length (operations5 d)) * 2) \<and>
     (0 :: rat) < of_nat (operationsWithSecurity d) / of_nat (length (operations5 d)) * 2"
proof -
  have h: "hasSecurity operation" using assms(2) by (simp add: hasSecurity_def)
  have p: "0 < operationsWithSecurity d"
    unfolding operationsWithSecurity_def using assms(1) h by (rule count_pos)
  have l: "operationsWithSecurity d \<le> length (operations5 d)"
    by (simp add: operationsWithSecurity_def count_le)
  have n: "0 < length (operations5 d)" using assms(1) by (cases "operations5 d") simp_all
  have e: "operationsWithSecurity d = length (filter (\<lambda>x. op_security x \<noteq> None) (operations5 d))"
    by (simp add: operationsWithSecurity_def count_def hasSecurity_def [abs_def])
  have q: "(0 :: rat) < of_nat (operationsWithSecurity d) / of_nat (length (operations5 d)) * 2"
    using p n by simp
  show ?thesis
    using h p l n e q security_tally_eq [of d] by simp
qed

theorem empty_security_counts_witness:
  "plainOperation\<lparr>op_security := Some []\<rparr> \<in> set (operations5 overrideDocument) \<and>
   op_security (plainOperation\<lparr>op_security := Some []\<rparr>) = Some [] \<and>
   hasSecurity (plainOperation\<lparr>op_security := Some []\<rparr>) \<and>
   0 < operationsWithSecurity overrideDocument \<and>
   operationsWithSecurity overrideDocument = 1 \<and>
   length (operations5 overrideDocument) = 3 \<and>
   fst (scoreSecurity_tally overrideDocument) = Fin (2 / 3) \<and>
   score (scoreSecurity overrideDocument) = Fin 1"
proof -
  have h: "plainOperation\<lparr>op_security := Some []\<rparr> \<in> set (operations5 overrideDocument)"
    "op_security (plainOperation\<lparr>op_security := Some []\<rparr>) = Some []"
    by (simp_all add: overrideDocument_def operations5_def pathItems_def methods5_def
        List.map_filter_def noOperations_def)
  have v: "operationsWithSecurity overrideDocument = 1 \<and>
     length (operations5 overrideDocument) = 3 \<and>
     fst (scoreSecurity_tally overrideDocument) = Fin (2 / 3) \<and>
     score (scoreSecurity overrideDocument) = Fin 1"
    by code_simp
  note t = empty_security_counts [OF h]
  from t have c: "hasSecurity (plainOperation\<lparr>op_security := Some []\<rparr>)"
    "0 < operationsWithSecurity overrideDocument" by blast+
  show ?thesis using h c v by blast
qed

end
